theory Spec2Isabelle
  imports Complex_Main
begin

section \<open>JavaScript numbers\<close>

text \<open>
  Every quantity of the pages is a JavaScript \<^verbatim>\<open>number\<close>. A number is modelled as a
  finite real or one of the three special values of IEEE-754, and each operator follows
  the special-value rules of the language: a comparison with \<open>NaN\<close> is false, a non-zero
  finite value divided by zero is an infinity, \<open>0 / 0\<close> and \<open>Infinity - Infinity\<close> are
  \<open>NaN\<close>, the logarithm of a negative number is \<open>NaN\<close> and the logarithm of zero is
  \<open>-Infinity\<close>. The sign of zero is abstracted: a zero divisor is taken as \<open>+0\<close>.

  The operators \<open>js_add\<close>, \<open>js_sub\<close>, \<open>js_mul\<close> and \<open>js_div\<close> give the exact real for
  finite operands. The sums, differences and ratios of the account, budget, savings, bill
  and transaction pages are stated with them, so that rounding and overflow are
  abstracted there. The payoff formula of the debts page, whose value turns on the last
  bit of its intermediate results, is stated with the operators of the section on
  binary64, which round every result as the machine does.
\<close>

datatype jsnum = Fin real | PInf | NInf | NaN

fun js_add :: "jsnum \<Rightarrow> jsnum \<Rightarrow> jsnum" where
  "js_add NaN _ = NaN"
| "js_add _ NaN = NaN"
| "js_add (Fin x) (Fin y) = Fin (x + y)"
| "js_add PInf NInf = NaN"
| "js_add NInf PInf = NaN"
| "js_add PInf _ = PInf"
| "js_add _ PInf = PInf"
| "js_add NInf _ = NInf"
| "js_add _ NInf = NInf"

fun js_neg :: "jsnum \<Rightarrow> jsnum" where
  "js_neg (Fin x) = Fin (- x)"
| "js_neg PInf = NInf"
| "js_neg NInf = PInf"
| "js_neg NaN = NaN"

definition js_sub :: "jsnum \<Rightarrow> jsnum \<Rightarrow> jsnum" where
  "js_sub a b = js_add a (js_neg b)"

fun js_mul :: "jsnum \<Rightarrow> jsnum \<Rightarrow> jsnum" where
  "js_mul NaN _ = NaN"
| "js_mul _ NaN = NaN"
| "js_mul (Fin x) (Fin y) = Fin (x * y)"
| "js_mul (Fin x) PInf = (if x = 0 then NaN else if 0 < x then PInf else NInf)"
| "js_mul (Fin x) NInf = (if x = 0 then NaN else if 0 < x then NInf else PInf)"
| "js_mul PInf (Fin y) = (if y = 0 then NaN else if 0 < y then PInf else NInf)"
| "js_mul NInf (Fin y) = (if y = 0 then NaN else if 0 < y then NInf else PInf)"
| "js_mul PInf PInf = PInf"
| "js_mul NInf NInf = PInf"
| "js_mul PInf NInf = NInf"
| "js_mul NInf PInf = NInf"

fun js_div :: "jsnum \<Rightarrow> jsnum \<Rightarrow> jsnum" where
  "js_div NaN _ = NaN"
| "js_div _ NaN = NaN"
| "js_div (Fin x) (Fin y) =
     (if y \<noteq> 0 then Fin (x / y)
      else if 0 < x then PInf else if x < 0 then NInf else NaN)"
| "js_div (Fin x) _ = Fin 0"
| "js_div PInf (Fin y) = (if 0 \<le> y then PInf else NInf)"
| "js_div NInf (Fin y) = (if 0 \<le> y then NInf else PInf)"
| "js_div _ _ = NaN"

fun js_lt :: "jsnum \<Rightarrow> jsnum \<Rightarrow> bool" where
  "js_lt NaN _ = False"
| "js_lt _ NaN = False"
| "js_lt (Fin x) (Fin y) = (x < y)"
| "js_lt _ NInf = False"
| "js_lt PInf _ = False"
| "js_lt _ _ = True"

definition js_gt :: "jsnum \<Rightarrow> jsnum \<Rightarrow> bool" where
  "js_gt a b = js_lt b a"

definition js_le :: "jsnum \<Rightarrow> jsnum \<Rightarrow> bool" where
  "js_le a b = (a \<noteq> NaN \<and> b \<noteq> NaN \<and> (a = b \<or> js_lt a b))"

text \<open>\<^verbatim>\<open>Math.log\<close>, \<^verbatim>\<open>Math.ceil\<close> and \<^verbatim>\<open>Math.abs\<close>.\<close>

fun Math_log :: "jsnum \<Rightarrow> jsnum" where
  "Math_log (Fin x) = (if x < 0 then NaN else if x = 0 then NInf else Fin (ln x))"
| "Math_log PInf = PInf"
| "Math_log NInf = NaN"
| "Math_log NaN = NaN"

fun Math_ceil :: "jsnum \<Rightarrow> jsnum" where
  "Math_ceil (Fin x) = Fin (of_int \<lceil>x\<rceil>)"
| "Math_ceil v = v"

fun Math_abs :: "jsnum \<Rightarrow> jsnum" where
  "Math_abs (Fin x) = Fin \<bar>x\<bar>"
| "Math_abs PInf = PInf"
| "Math_abs NInf = PInf"
| "Math_abs NaN = NaN"

fun isFinite :: "jsnum \<Rightarrow> bool" where
  "isFinite (Fin x) = True"
| "isFinite _ = False"

text \<open>
  The sum of a list of numbers, term by term from the right. The pages sum with
  \<^verbatim>\<open>reduce((sum, x) => sum + ..., 0)\<close>, which is \<open>foldl\<close> from \<open>Fin 0\<close>; \<open>js_sum\<close> is the
  mathematical sum that the aggregates are compared with.
\<close>

definition js_sum :: "jsnum list \<Rightarrow> jsnum" where
  "js_sum xs = foldr js_add xs (Fin 0)"

section \<open>Binary64 rounding\<close>

text \<open>
  A number is an IEEE-754 binary64 value, and each arithmetic operation returns the exact
  result rounded to the nearest such value, ties to the even significand. \<open>fl x\<close> is that
  rounding of the real \<open>x\<close>: in the binade \<open>2^e \<le> |x| < 2^(e+1)\<close> the values are the
  multiples of \<open>2^(e-52)\<close>, below \<open>2^(-1022)\<close> the multiples of \<open>2^(-1074)\<close>, and a result of
  magnitude \<open>2^1024\<close> or more is an infinity. \<^verbatim>\<open>Math.log\<close>, whose accuracy the language
  leaves to the implementation, is taken as the correctly rounded logarithm.
\<close>

definition round_even :: "real \<Rightarrow> int" where
  "round_even y =
     (let f = \<lfloor>y\<rfloor>
      in if y - of_int f < 1 / 2 then f
         else if 1 / 2 < y - of_int f then f + 1
         else if even f then f else f + 1)"

definition pow2 :: "int \<Rightarrow> real" where
  "pow2 k = (if 0 \<le> k then 2 ^ nat k else 1 / 2 ^ nat (- k))"

definition binade :: "real \<Rightarrow> int" where
  "binade x = max \<lfloor>log 2 \<bar>x\<bar>\<rfloor> (- 1022)"

definition fl :: "real \<Rightarrow> jsnum" where
  "fl x =
     (if x = 0 then Fin 0
      else let u = pow2 (binade x - 52);
               y = of_int (round_even (x / u)) * u
           in if pow2 1024 \<le> \<bar>y\<bar> then (if 0 < x then PInf else NInf) else Fin y)"

fun round64 :: "jsnum \<Rightarrow> jsnum" where
  "round64 (Fin x) = fl x"
| "round64 v = v"

definition add64 :: "jsnum \<Rightarrow> jsnum \<Rightarrow> jsnum" where
  "add64 a b = round64 (js_add a b)"

definition sub64 :: "jsnum \<Rightarrow> jsnum \<Rightarrow> jsnum" where
  "sub64 a b = round64 (js_sub a b)"

definition mul64 :: "jsnum \<Rightarrow> jsnum \<Rightarrow> jsnum" where
  "mul64 a b = round64 (js_mul a b)"

definition div64 :: "jsnum \<Rightarrow> jsnum \<Rightarrow> jsnum" where
  "div64 a b = round64 (js_div a b)"

definition log64 :: "jsnum \<Rightarrow> jsnum" where
  "log64 a = round64 (Math_log a)"

section \<open>Debts page\<close>

text \<open>
  \<^verbatim>\<open>calculatePayoffDate(balance, rate, payment)\<close> of the debts page: the closed amortisation
  formula, with no branch on the rate and no \<^verbatim>\<open>throw\<close>. Every operation rounds to
  binary64; \<^verbatim>\<open>Math.ceil\<close> of a binary64 value is exact.
\<close>

definition calculatePayoffDate :: "jsnum \<Rightarrow> jsnum \<Rightarrow> jsnum \<Rightarrow> jsnum" where
  "calculatePayoffDate balance rate payment =
     (let monthlyRate = div64 (div64 rate (Fin 100)) (Fin 12);
          months = div64
                     (log64 (div64 payment (sub64 payment (mul64 balance monthlyRate))))
                     (log64 (add64 (Fin 1) monthlyRate))
      in Math_ceil months)"

section \<open>Dates\<close>

text \<open>
  A date is held in the source as an ISO string and read with
  \<^verbatim>\<open>new Date(s).getTime()\<close>. A date field is modelled by that reading, the number of
  milliseconds since the epoch (\<open>NaN\<close> for a string that is no date). The reading of the
  ambient clock, \<^verbatim>\<open>new Date().getTime()\<close>, is the argument \<open>clock\<close> of the functions
  that make it: the source functions have no such parameter.
\<close>

type_synonym timestamp = jsnum

section \<open>Accounts page\<close>

datatype account_type = Checking | Savings | Credit | Investment

record Account =
  acc_id :: string
  acc_name :: string
  acc_type :: account_type
  balance :: jsnum
  bankName :: string
  accountNumber :: string
  acc_isActive :: bool
  lastSync :: string

definition totalAssets :: "Account list \<Rightarrow> jsnum" where
  "totalAssets accounts =
     foldl (\<lambda>sum account. js_add sum (balance account)) (Fin 0)
       (filter (\<lambda>account. acc_type account \<noteq> Credit \<and> js_gt (balance account) (Fin 0))
          accounts)"

definition totalLiabilities :: "Account list \<Rightarrow> jsnum" where
  "totalLiabilities accounts =
     foldl (\<lambda>sum account. js_add sum (Math_abs (balance account))) (Fin 0)
       (filter (\<lambda>account. acc_type account = Credit \<and> js_lt (balance account) (Fin 0))
          accounts)"

definition netWorth :: "Account list \<Rightarrow> jsnum" where
  "netWorth accounts = js_sub (totalAssets accounts) (totalLiabilities accounts)"

text \<open>
  The accounts page that the deployment script writes out has the same three constants
  with filters on the balance alone.
\<close>

definition totalAssets_deploy :: "Account list \<Rightarrow> jsnum" where
  "totalAssets_deploy accounts =
     foldl (\<lambda>sum a. js_add sum (balance a)) (Fin 0)
       (filter (\<lambda>a. js_gt (balance a) (Fin 0)) accounts)"

definition totalLiabilities_deploy :: "Account list \<Rightarrow> jsnum" where
  "totalLiabilities_deploy accounts =
     foldl (\<lambda>sum a. js_add sum (Math_abs (balance a))) (Fin 0)
       (filter (\<lambda>a. js_lt (balance a) (Fin 0)) accounts)"

definition netWorth_deploy :: "Account list \<Rightarrow> jsnum" where
  "netWorth_deploy accounts =
     js_sub (totalAssets_deploy accounts) (totalLiabilities_deploy accounts)"

text \<open>
  The rule of the specification for the assets, in its words: the balances of the
  accounts that are not credit accounts and have a positive balance, plus the balances
  of the credit accounts with a positive balance.
\<close>

definition totalAssets_spec :: "Account list \<Rightarrow> jsnum" where
  "totalAssets_spec accounts =
     js_add
       (js_sum (map balance
          (filter (\<lambda>a. acc_type a \<noteq> Credit \<and> js_gt (balance a) (Fin 0)) accounts)))
       (js_sum (map balance
          (filter (\<lambda>a. acc_type a = Credit \<and> js_gt (balance a) (Fin 0)) accounts)))"

section \<open>Budget page\<close>

record Budget =
  budget_name :: string
  monthlyIncome :: jsnum
  payFrequency :: string
  firstPayDate :: string

definition biWeeklyIncome :: "Budget \<Rightarrow> jsnum" where
  "biWeeklyIncome budget = js_div (js_mul (monthlyIncome budget) (Fin 12)) (Fin 26)"

text \<open>
  The rule of the specification for the income of a pay period, in its words. The page
  has no table of periods per year and no function of the frequency.
\<close>

datatype pay_frequency = Weekly | BiWeekly | Monthly | Quarterly | Yearly

fun periodsPerYear :: "pay_frequency \<Rightarrow> real" where
  "periodsPerYear Weekly = 52"
| "periodsPerYear BiWeekly = 26"
| "periodsPerYear Monthly = 12"
| "periodsPerYear Quarterly = 4"
| "periodsPerYear Yearly = 1"

definition periodIncome_spec :: "jsnum \<Rightarrow> pay_frequency \<Rightarrow> jsnum" where
  "periodIncome_spec income frequency =
     js_mul income (js_div (Fin (periodsPerYear frequency)) (Fin 12))"

section \<open>Savings page\<close>

record SavingsGoal =
  goal_id :: string
  goal_name :: string
  targetAmount :: jsnum
  currentAmount :: jsnum
  targetDate :: timestamp
  goal_category :: string
  isActive :: bool
  createdAt :: string
  monthlyContribution :: jsnum
  progress :: jsnum

definition activeGoals :: "SavingsGoal list \<Rightarrow> SavingsGoal list" where
  "activeGoals goals = filter (\<lambda>goal. isActive goal) goals"

definition totalTargetAmount :: "SavingsGoal list \<Rightarrow> jsnum" where
  "totalTargetAmount goals =
     foldl (\<lambda>sum goal. js_add sum (targetAmount goal)) (Fin 0) (activeGoals goals)"

definition totalCurrentAmount :: "SavingsGoal list \<Rightarrow> jsnum" where
  "totalCurrentAmount goals =
     foldl (\<lambda>sum goal. js_add sum (currentAmount goal)) (Fin 0) (activeGoals goals)"

definition overallProgress :: "SavingsGoal list \<Rightarrow> jsnum" where
  "overallProgress goals =
     (if js_gt (totalTargetAmount goals) (Fin 0)
      then js_mul (js_div (totalCurrentAmount goals) (totalTargetAmount goals)) (Fin 100)
      else Fin 0)"

text \<open>
  The savings page that the deployment script writes out sums over all goals and
  divides with no test of the divisor.
\<close>

definition overallProgress_deploy :: "SavingsGoal list \<Rightarrow> jsnum" where
  "overallProgress_deploy goals =
     (let totalTarget = foldl (\<lambda>sum goal. js_add sum (targetAmount goal)) (Fin 0) goals;
          totalCurrent = foldl (\<lambda>sum goal. js_add sum (currentAmount goal)) (Fin 0) goals
      in js_mul (js_div totalCurrent totalTarget) (Fin 100))"

definition calculateMonthsRemaining :: "timestamp \<Rightarrow> jsnum \<Rightarrow> jsnum \<Rightarrow> jsnum \<Rightarrow> jsnum" where
  "calculateMonthsRemaining tDate current target contribution =
     (let remaining = js_sub target current
      in if js_le remaining (Fin 0) \<or> js_le contribution (Fin 0) then Fin 0
         else Math_ceil (js_div remaining contribution))"

definition isOnTrack :: "timestamp \<Rightarrow> SavingsGoal \<Rightarrow> bool" where
  "isOnTrack clock goal =
     (let monthsUntilTarget =
            Math_ceil (js_div (js_sub (targetDate goal) clock)
                         (Fin (1000 * 60 * 60 * 24 * 30)));
          monthsNeeded =
            calculateMonthsRemaining (targetDate goal) (currentAmount goal)
              (targetAmount goal) (monthlyContribution goal)
      in js_le monthsNeeded monthsUntilTarget)"

section \<open>Bills page\<close>

datatype bill_frequency = BillMonthly | BillQuarterly | BillYearly | BillWeekly

record Bill =
  bill_id :: string
  bill_name :: string
  bill_amount :: jsnum
  dueDate :: timestamp
  frequency :: bill_frequency
  bill_category :: string
  isPaid :: bool
  isOverdue :: bool
  paymentMethod :: string
  isRecurring :: bool
  nextDueDate :: timestamp
  lastPaidDate :: "timestamp option"

definition getBillStatusText :: "Bill \<Rightarrow> string" where
  "getBillStatusText bill =
     (if isPaid bill then ''Paid''
      else if isOverdue bill then ''Overdue''
      else ''Pending'')"

definition getDaysUntilDue :: "timestamp \<Rightarrow> timestamp \<Rightarrow> jsnum" where
  "getDaysUntilDue clock due =
     (let diffTime = js_sub due clock;
          diffDays = Math_ceil (js_div diffTime (Fin (1000 * 60 * 60 * 24)))
      in diffDays)"

text \<open>
  The classification rule of the specification, in its words: paid when the flag is
  set, else overdue when the due date is before the as-of date, else pending.
\<close>

datatype bill_status = Paid | Overdue | Pending

definition classify_spec :: "timestamp \<Rightarrow> bool \<Rightarrow> timestamp \<Rightarrow> bill_status" where
  "classify_spec due isPaidFlag asOfDate =
     (if isPaidFlag then Paid else if js_lt due asOfDate then Overdue else Pending)"

fun status_text :: "bill_status \<Rightarrow> string" where
  "status_text Paid = ''Paid''"
| "status_text Overdue = ''Overdue''"
| "status_text Pending = ''Pending''"

section \<open>Transactions page\<close>

datatype transaction_type = Income | Expense | Transfer

record Transaction =
  tx_id :: string
  tx_date :: string
  description :: string
  tx_category :: string
  amount :: jsnum
  tx_type :: transaction_type
  tx_account :: string
  tx_isRecurring :: bool

definition totalIncome :: "Transaction list \<Rightarrow> jsnum" where
  "totalIncome transactions =
     foldl (\<lambda>sum t. js_add sum (amount t)) (Fin 0)
       (filter (\<lambda>t. tx_type t = Income) transactions)"

definition totalExpenses :: "Transaction list \<Rightarrow> jsnum" where
  "totalExpenses transactions =
     foldl (\<lambda>sum t. js_add sum (Math_abs (amount t))) (Fin 0)
       (filter (\<lambda>t. tx_type t = Expense) transactions)"

definition netAmount :: "Transaction list \<Rightarrow> jsnum" where
  "netAmount transactions = js_sub (totalIncome transactions) (totalExpenses transactions)"

section \<open>Sample records\<close>

text \<open>
  Records of the pages' initial state, and a credit account with a positive balance,
  used where a property is evaluated.
\<close>

definition mockBudget :: Budget where
  "mockBudget = \<lparr>budget_name = ''My Budget'', monthlyIncome = Fin 4500,
     payFrequency = ''bi-weekly'', firstPayDate = ''2024-01-01''\<rparr>"

definition emergencyFund :: SavingsGoal where
  "emergencyFund = \<lparr>goal_id = ''1'', goal_name = ''Emergency Fund'', targetAmount = Fin 10000,
     currentAmount = Fin 6500, targetDate = Fin 1735603200000, goal_category = ''Emergency'',
     isActive = True, createdAt = ''2024-01-01'', monthlyContribution = Fin 500,
     progress = Fin 65\<rparr>"

definition electricBill :: Bill where
  "electricBill = \<lparr>bill_id = ''2'', bill_name = ''Electric Bill'', bill_amount = Fin 89.50,
     dueDate = Fin 1705276800000, frequency = BillMonthly, bill_category = ''Utilities'',
     isPaid = False, isOverdue = False, paymentMethod = ''Credit Card'', isRecurring = True,
     nextDueDate = Fin 1705276800000, lastPaidDate = None\<rparr>"

definition salaryDeposit :: Transaction where
  "salaryDeposit = \<lparr>tx_id = ''1'', tx_date = ''2024-01-15'', description = ''Salary Deposit'',
     tx_category = ''Income'', amount = Fin 2250, tx_type = Income,
     tx_account = ''Checking Account'', tx_isRecurring = True\<rparr>"

definition groceryStore :: Transaction where
  "groceryStore = \<lparr>tx_id = ''2'', tx_date = ''2024-01-15'', description = ''Grocery Store'',
     tx_category = ''Food & Dining'', amount = Fin (-125.50), tx_type = Expense,
     tx_account = ''Credit Card'', tx_isRecurring = False\<rparr>"

definition onlineTransfer :: Transaction where
  "onlineTransfer = \<lparr>tx_id = ''6'', tx_date = ''2024-01-12'', description = ''Online Transfer'',
     tx_category = ''Transfer'', amount = Fin (-500), tx_type = Transfer,
     tx_account = ''Savings Account'', tx_isRecurring = False\<rparr>"

definition creditFloat :: Account where
  "creditFloat = \<lparr>acc_id = ''5'', acc_name = ''Overpaid Card'', acc_type = Credit,
     balance = Fin 100, bankName = ''Capital One'', accountNumber = ''****0000'',
     acc_isActive = True, lastSync = ''2024-01-15T09:45:00Z''\<rparr>"

section \<open>Sums of numbers\<close>

lemma js_add_assoc: "js_add (js_add a b) c = js_add a (js_add b c)"
  by (cases a; cases b; cases c) simp_all

lemma js_add_left_commute: "js_add a (js_add b c) = js_add b (js_add a c)"
  by (cases a; cases b; cases c) simp_all

lemma js_add_zero_left: "js_add (Fin 0) a = a"
  by (cases a) simp_all

lemma js_add_zero_right: "js_add a (Fin 0) = a"
  by (cases a) simp_all

lemma foldl_js_add:
  "foldl (\<lambda>sum x. js_add sum (f x)) a xs = js_add a (js_sum (map f xs))"
proof (induction xs arbitrary: a)
  case Nil
  show ?case by (simp add: js_sum_def js_add_zero_right)
next
  case (Cons x xs)
  have "foldl (\<lambda>sum x. js_add sum (f x)) a (x # xs) =
        js_add (js_add a (f x)) (js_sum (map f xs))"
    using Cons.IH [of "js_add a (f x)"] by simp
  also have "\<dots> = js_add a (js_sum (map f (x # xs)))"
    by (simp add: js_sum_def js_add_assoc)
  finally show ?case .
qed

lemma reduce_js_sum:
  "foldl (\<lambda>sum x. js_add sum (f x)) (Fin 0) xs = js_sum (map f xs)"
  by (simp add: foldl_js_add js_add_zero_left)

lemma js_sum_filter:
  "js_sum (map f (filter P xs)) = js_sum (map (\<lambda>x. if P x then f x else Fin 0) xs)"
  by (induction xs) (simp_all add: js_sum_def js_add_zero_left)

lemma js_sum_add:
  "js_sum (map (\<lambda>x. js_add (f x) (g x)) xs) =
     js_add (js_sum (map f xs)) (js_sum (map g xs))"
proof (induction xs)
  case Nil
  show ?case by (simp add: js_sum_def)
next
  case (Cons x xs)
  then show ?case
    by (simp add: js_sum_def js_add_assoc js_add_left_commute)
qed

lemma js_add_nonneg:
  "js_le (Fin 0) a \<Longrightarrow> js_le (Fin 0) b \<Longrightarrow> js_le (Fin 0) (js_add a b)"
  by (cases a; cases b) (auto simp: js_le_def)

lemma js_sum_nonneg: "\<forall>x\<in>set xs. js_le (Fin 0) x \<Longrightarrow> js_le (Fin 0) (js_sum xs)"
proof (induction xs)
  case Nil
  show ?case by (simp add: js_sum_def js_le_def)
next
  case (Cons x xs)
  then have "js_le (Fin 0) x" "js_le (Fin 0) (js_sum xs)" by simp_all
  then have "js_le (Fin 0) (js_add x (js_sum xs))" by (rule js_add_nonneg)
  then show ?case by (simp add: js_sum_def)
qed

lemma nonneg_zero_or_gt: "js_le (Fin 0) a \<Longrightarrow> (a = Fin 0) = (\<not> js_gt a (Fin 0))"
  by (cases a) (auto simp: js_le_def js_gt_def)

section \<open>Rounding\<close>

lemma round_even_bounds: "\<bar>of_int (round_even y) - y\<bar> \<le> 1 / 2"
  unfolding round_even_def Let_def by (auto simp: abs_if) linarith+

lemma round_even_nonpos: "y \<le> 0 \<Longrightarrow> round_even y \<le> 0"
proof -
  assume "y \<le> 0"
  have "\<bar>of_int (round_even y) - y\<bar> \<le> 1 / 2" by (rule round_even_bounds)
  with \<open>y \<le> 0\<close> have "real_of_int (round_even y) < 1" by linarith
  then show ?thesis by linarith
qed

lemma pow2_powr: "pow2 k = 2 powr of_int k"
  by (simp add: pow2_def powr_real_of_int inverse_eq_divide)

lemma pow2_pos: "0 < pow2 k"
  by (simp add: pow2_powr)

lemma pow2_mono: "j \<le> k \<Longrightarrow> pow2 j \<le> pow2 k"
  by (simp add: pow2_powr)

lemma pow2_Suc: "pow2 (k + 1) = 2 * pow2 k"
  by (simp add: pow2_powr powr_add)

text \<open>Rounding keeps the sign: a negative real rounds to a number that is not positive.\<close>

lemma fl_neg: "x < 0 \<Longrightarrow> fl x = NInf \<or> (\<exists>y. fl x = Fin y \<and> y \<le> 0)"
proof -
  assume x: "x < 0"
  let ?u = "pow2 (binade x - 52)"
  have u: "0 < ?u" by (rule pow2_pos)
  with x have "x / ?u \<le> 0" by (simp add: divide_nonpos_pos)
  then have "round_even (x / ?u) \<le> 0" by (rule round_even_nonpos)
  then have "of_int (round_even (x / ?u)) * ?u \<le> 0"
    using u by (simp add: mult_nonpos_nonneg)
  with x show ?thesis by (simp add: fl_def Let_def)
qed

lemma fl_0: "fl 0 = Fin 0"
  by (simp add: fl_def)

lemma binade_eq:
  assumes "pow2 e \<le> \<bar>x\<bar>" and "\<bar>x\<bar> < pow2 (e + 1)" and "- 1022 \<le> e"
  shows "binade x = e"
proof -
  have "0 < \<bar>x\<bar>" using assms(1) pow2_pos [of e] by linarith
  moreover have "2 powr of_int e \<le> \<bar>x\<bar>" "\<bar>x\<bar> < 2 powr (of_int e + 1)"
    using assms(1,2) by (simp_all add: pow2_powr)
  ultimately have "\<lfloor>log 2 \<bar>x\<bar>\<rfloor> = e"
    by (simp add: floor_log_eq_powr_iff)
  with assms(3) show ?thesis by (simp add: binade_def)
qed

text \<open>The rounding of a real whose binade is known, away from the overflow range.\<close>

lemma fl_eval:
  assumes "pow2 e \<le> \<bar>x\<bar>" and "\<bar>x\<bar> < pow2 (e + 1)" and "- 1022 \<le> e" and "e \<le> 1022"
  shows "fl x = Fin (of_int (round_even (x / pow2 (e - 52))) * pow2 (e - 52))"
proof -
  let ?u = "pow2 (e - 52)"
  let ?n = "round_even (x / ?u)"
  have b: "binade x = e" using assms(1-3) by (rule binade_eq)
  have nz: "x \<noteq> 0" using assms(1) pow2_pos [of e] by auto
  have u: "0 < ?u" by (rule pow2_pos)
  have "\<bar>of_int ?n - x / ?u\<bar> \<le> 1 / 2" by (rule round_even_bounds)
  then have "\<bar>of_int ?n\<bar> \<le> \<bar>x / ?u\<bar> + 1 / 2" by linarith
  then have "\<bar>of_int ?n\<bar> * ?u \<le> (\<bar>x / ?u\<bar> + 1 / 2) * ?u"
    using u by (simp add: mult_right_mono)
  also have "\<dots> = \<bar>x\<bar> + ?u / 2"
    using u by (simp add: field_simps abs_mult)
  also have "\<dots> < pow2 (e + 1) + ?u / 2" using assms(2) by simp
  also have "\<dots> \<le> pow2 (e + 1) + pow2 (e + 1)"
    using pow2_mono [of "e - 52" "e + 1"] u by simp
  also have "\<dots> = pow2 (e + 2)"
    using pow2_Suc [of "e + 1"] by (simp add: add.commute)
  also have "\<dots> \<le> pow2 1024" using assms(4) by (intro pow2_mono) simp
  finally have "\<bar>of_int ?n * ?u\<bar> < pow2 1024"
    using u by (simp add: abs_mult)
  with b nz show ?thesis by (simp add: fl_def Let_def)
qed

lemma fl_1: "fl 1 = Fin 1"
  using fl_eval [of 0 1] by (simp add: pow2_def round_even_def)

lemma fl_100: "fl 100 = Fin 100"
  using fl_eval [of 6 100] by (simp add: pow2_def round_even_def)

lemma fl_6: "fl 6 = Fin 6"
  using fl_eval [of 2 6] by (simp add: pow2_def round_even_def)

lemma fl_half: "fl (1 / 2) = Fin (1 / 2)"
  using fl_eval [of "- 1" "1 / 2"] by (simp add: pow2_def round_even_def)

lemma fl_200: "fl 200 = Fin 200"
  using fl_eval [of 7 200] by (simp add: pow2_def round_even_def)

lemma fl_m50: "fl (- 50) = Fin (- 50)"
  using fl_eval [of 5 "- 50"] by (simp add: pow2_def round_even_def)

lemma fl_m3: "fl (- 3) = Fin (- 3)"
  using fl_eval [of 1 "- 3"] by (simp add: pow2_def round_even_def)

text \<open>
  The monthly interest on 10000 at 24 per cent, as the formula computes it: 24 / 100 and
  the twelfth of it are rounded, and the product rounds to 200.
\<close>

lemma interest_10000_24:
  "mul64 (Fin 10000) (div64 (div64 (Fin 24) (Fin 100)) (Fin 12)) = Fin 200"
proof -
  have a: "div64 (Fin 24) (Fin 100) = Fin (8646911284551352 / 2 ^ 55)"
    using fl_eval [of "- 3" "24 / 100"] by (simp add: div64_def pow2_def round_even_def)
  have b: "div64 (Fin (8646911284551352 / 2 ^ 55)) (Fin 12) = Fin (5764607523034235 / 2 ^ 58)"
    using fl_eval [of "- 6" "8646911284551352 / 2 ^ 55 / 12"]
    by (simp add: div64_def pow2_def round_even_def)
  have c: "mul64 (Fin 10000) (Fin (5764607523034235 / 2 ^ 58)) = Fin 200"
    using fl_eval [of 7 "10000 * (5764607523034235 / 2 ^ 58)"]
    by (simp add: mul64_def pow2_def round_even_def)
  show ?thesis by (simp only: a b c)
qed

text \<open>
  The monthly interest on 8000 at 15 per cent is 100 in exact arithmetic; as the formula
  computes it, it is the binary64 value next below 100, so that a payment of 100 exceeds
  it.
\<close>

lemma interest_8000_15:
  "mul64 (Fin 8000) (div64 (div64 (Fin 15) (Fin 100)) (Fin 12)) =
     Fin (7036874417766399 / 2 ^ 46)
   \<and> \<not> js_le (Fin 100) (mul64 (Fin 8000) (div64 (div64 (Fin 15) (Fin 100)) (Fin 12)))"
proof -
  have a: "div64 (Fin 15) (Fin 100) = Fin (5404319552844595 / 2 ^ 55)"
    using fl_eval [of "- 3" "15 / 100"] by (simp add: div64_def pow2_def round_even_def)
  have b: "div64 (Fin (5404319552844595 / 2 ^ 55)) (Fin 12) = Fin (7205759403792793 / 2 ^ 59)"
    using fl_eval [of "- 7" "5404319552844595 / 2 ^ 55 / 12"]
    by (simp add: div64_def pow2_def round_even_def)
  have c: "mul64 (Fin 8000) (Fin (7205759403792793 / 2 ^ 59)) = Fin (7036874417766399 / 2 ^ 46)"
    using fl_eval [of 6 "8000 * (7205759403792793 / 2 ^ 59)"]
    by (simp add: mul64_def pow2_def round_even_def)
  have "\<not> js_le (Fin 100) (Fin (7036874417766399 / 2 ^ 46))"
    by (simp add: js_le_def)
  then show ?thesis by (simp only: a b c) simp
qed

lemma log64_not_finite:
  assumes "q = PInf \<or> q = NInf \<or> q = NaN \<or> (\<exists>y. q = Fin y \<and> y \<le> 0)"
  shows "\<not> isFinite (log64 q)"
  using assms by (cases q) (auto simp: log64_def order.order_iff_strict)

lemma div64_not_finite: "\<not> isFinite a \<Longrightarrow> \<not> isFinite (div64 a b)"
  by (cases a; cases b) (simp_all add: div64_def)

lemma ceil_not_finite: "\<not> isFinite a \<Longrightarrow> \<not> isFinite (Math_ceil a)"
  by (cases a) simp_all

lemma not_finite_cases: "\<not> isFinite a \<longleftrightarrow> a \<in> {NaN, PInf, NInf}"
  by (cases a) simp_all

section \<open>Debt payoff\<close>

text \<open>
  C1. \<open>calculatePayoffDate\<close> has no failure value: its result is a number. For a debt
  with a positive payment that does not exceed the monthly interest
  \<open>balance * (rate / 100 / 12)\<close>, the interest taken as the formula computes it, the
  result is no finite count of months: it is \<open>NaN\<close> or an infinity.
\<close>

theorem calculatePayoffDate_unpayable:
  assumes "0 < p"
    and "js_le (Fin p) (mul64 (Fin b) (div64 (div64 (Fin r) (Fin 100)) (Fin 12)))"
  shows "calculatePayoffDate (Fin b) (Fin r) (Fin p) \<in> {NaN, PInf, NInf}"
proof -
  let ?i = "mul64 (Fin b) (div64 (div64 (Fin r) (Fin 100)) (Fin 12))"
  let ?d = "sub64 (Fin p) ?i"
  let ?q = "div64 (Fin p) ?d"
  have d: "?d = NInf \<or> (\<exists>y. ?d = Fin y \<and> y \<le> 0)"
  proof (cases ?i)
    case (Fin c)
    with assms(2) have "p \<le> c" by (auto simp: js_le_def)
    show ?thesis
    proof (cases "p = c")
      case True
      with Fin show ?thesis by (simp add: sub64_def js_sub_def fl_0)
    next
      case False
      with \<open>p \<le> c\<close> have "p - c < 0" by simp
      from fl_neg [OF this] Fin show ?thesis by (simp add: sub64_def js_sub_def)
    qed
  next
    case PInf
    then show ?thesis by (simp add: sub64_def js_sub_def)
  next
    case NInf
    with assms(2) show ?thesis by (simp add: js_le_def)
  next
    case NaN
    with assms(2) show ?thesis by (simp add: js_le_def)
  qed
  have q: "?q = PInf \<or> ?q = NInf \<or> ?q = NaN \<or> (\<exists>y. ?q = Fin y \<and> y \<le> 0)"
  proof -
    from d consider "?d = NInf" | "?d = Fin 0" | y where "?d = Fin y" "y < 0"
      by fastforce
    then show ?thesis
    proof cases
      case 1
      then show ?thesis by (simp add: div64_def fl_0)
    next
      case 2
      with assms(1) show ?thesis by (simp add: div64_def)
    next
      case 3
      with assms(1) have "p / y < 0" by (simp add: divide_pos_neg)
      from fl_neg [OF this] 3 show ?thesis by (auto simp: div64_def)
    qed
  qed
  have "\<not> isFinite (calculatePayoffDate (Fin b) (Fin r) (Fin p))"
    unfolding calculatePayoffDate_def Let_def
    by (intro ceil_not_finite div64_not_finite log64_not_finite q)
  then show ?thesis by (simp only: not_finite_cases)
qed

theorem calculatePayoffDate_unpayable_witness:
  "(0::real) < 200
   \<and> js_le (Fin 200) (mul64 (Fin 400) (div64 (div64 (Fin 600) (Fin 100)) (Fin 12)))
   \<and> calculatePayoffDate (Fin 400) (Fin 600) (Fin 200) \<in> {NaN, PInf, NInf}"
proof -
  have h1: "(0::real) < 200" by simp
  have h2: "js_le (Fin 200) (mul64 (Fin 400) (div64 (div64 (Fin 600) (Fin 100)) (Fin 12)))"
    by (simp add: mul64_def div64_def fl_6 fl_half fl_200 js_le_def)
  from calculatePayoffDate_unpayable [OF h1 h2] h1 h2 show ?thesis by blast
qed

text \<open>
  At balance 10000, rate 24 and payment 150 the payment is below the monthly interest of
  200, in exact arithmetic and as the formula computes it, and the result is the number
  \<open>NaN\<close>.
\<close>

theorem calculatePayoffDate_counterexample:
  "(150::real) \<le> 10000 * (24 / 100 / 12)
   \<and> js_le (Fin 150) (mul64 (Fin 10000) (div64 (div64 (Fin 24) (Fin 100)) (Fin 12)))
   \<and> calculatePayoffDate (Fin 10000) (Fin 24) (Fin 150) = NaN"
proof -
  have "sub64 (Fin 150) (Fin 200) = Fin (- 50)"
    by (simp add: sub64_def js_sub_def fl_m50)
  moreover have "div64 (Fin 150) (Fin (- 50)) = Fin (- 3)"
    by (simp add: div64_def fl_m3)
  ultimately have "calculatePayoffDate (Fin 10000) (Fin 24) (Fin 150) = NaN"
    unfolding calculatePayoffDate_def Let_def interest_10000_24
    by (simp add: log64_def div64_def)
  then show ?thesis by (simp add: interest_10000_24 js_le_def)
qed

text \<open>
  C2. At the zero-rate input (balance 1000, annual rate 0, payment 100) the formula is
  evaluated as for any other rate: the quotient of the payments is 1, both logarithms are
  0, and the month count is \<open>0 / 0\<close>, that is \<open>NaN\<close>, where ten months are expected.
\<close>

theorem calculatePayoffDate_zero_rate:
  "calculatePayoffDate (Fin 1000) (Fin 0) (Fin 100) = NaN"
  by (simp add: calculatePayoffDate_def div64_def mul64_def sub64_def add64_def log64_def
      js_sub_def fl_0 fl_100 fl_1)

section \<open>Net position\<close>

text \<open>
  C3. On the accounts page \<open>totalAssets\<close> is the sum of the balances of the accounts
  that are not credit accounts and have a positive balance; a credit account adds
  nothing, whatever its balance. The page written out by the deployment script sums
  every positive balance, and that sum is the one of the specification, where a positive
  credit balance counts.
\<close>

theorem totalAssets_sum:
  "totalAssets accounts =
     js_sum (map (\<lambda>a. if acc_type a \<noteq> Credit \<and> js_gt (balance a) (Fin 0)
                       then balance a else Fin 0) accounts)
   \<and> totalAssets_deploy accounts =
     js_sum (map (\<lambda>a. if js_gt (balance a) (Fin 0) then balance a else Fin 0) accounts)
   \<and> totalAssets_deploy accounts = totalAssets_spec accounts"
proof -
  let ?P = "\<lambda>a. acc_type a \<noteq> Credit \<and> js_gt (balance a) (Fin 0)"
  let ?Q = "\<lambda>a. acc_type a = Credit \<and> js_gt (balance a) (Fin 0)"
  let ?R = "\<lambda>a. js_gt (balance a) (Fin 0)"
  have page: "totalAssets accounts =
      js_sum (map (\<lambda>a. if ?P a then balance a else Fin 0) accounts)"
    unfolding totalAssets_def by (simp only: reduce_js_sum js_sum_filter)
  have deploy: "totalAssets_deploy accounts =
      js_sum (map (\<lambda>a. if ?R a then balance a else Fin 0) accounts)"
    unfolding totalAssets_deploy_def by (simp only: reduce_js_sum js_sum_filter)
  have split: "(\<lambda>a. if ?R a then balance a else Fin 0) =
      (\<lambda>a. js_add (if ?P a then balance a else Fin 0) (if ?Q a then balance a else Fin 0))"
    by (rule ext) (simp add: js_add_zero_left js_add_zero_right)
  have "totalAssets_spec accounts =
      js_add (js_sum (map (\<lambda>a. if ?P a then balance a else Fin 0) accounts))
             (js_sum (map (\<lambda>a. if ?Q a then balance a else Fin 0) accounts))"
    unfolding totalAssets_spec_def by (simp only: js_sum_filter)
  also have "\<dots> = js_sum (map (\<lambda>a. if ?R a then balance a else Fin 0) accounts)"
    by (subst split) (rule js_sum_add [symmetric])
  finally have "totalAssets_deploy accounts = totalAssets_spec accounts"
    using deploy by simp
  with page deploy show ?thesis by simp
qed

text \<open>
  A credit account with a balance of 100 is the only account: the page's assets are 0,
  the rule of the specification gives 100.
\<close>

theorem totalAssets_counterexample:
  "totalAssets [creditFloat] = Fin 0 \<and> totalAssets_spec [creditFloat] = Fin 100"
  by (simp add: totalAssets_def totalAssets_spec_def creditFloat_def js_gt_def js_sum_def)

section \<open>Pay period income\<close>

text \<open>
  C4. The budget page computes one per-period income, the bi-weekly one, whatever pay
  frequency the budget holds: for a finite monthly income \<open>m\<close> it is \<open>m * 12 / 26\<close>, that
  is \<open>m\<close> times \<open>12 / periodsPerYear\<close> of the bi-weekly frequency, the inverse of the
  ratio of the specification.
\<close>

theorem biWeeklyIncome_rule:
  "biWeeklyIncome (budget\<lparr>monthlyIncome := Fin m, payFrequency := f\<rparr>) = Fin (m * 12 / 26)
   \<and> m * 12 / 26 = m * (12 / periodsPerYear BiWeekly)"
  by (simp add: biWeeklyIncome_def)

text \<open>
  For the budget of the page, with a monthly income of 4500, the page's income per
  period is \<open>4500 * 12 / 26\<close> and the rule of the specification gives \<open>4500 * (26 / 12)\<close>.
\<close>

theorem biWeeklyIncome_counterexample:
  "biWeeklyIncome mockBudget \<noteq> periodIncome_spec (monthlyIncome mockBudget) BiWeekly"
  by (simp add: biWeeklyIncome_def periodIncome_spec_def mockBudget_def)

section \<open>Savings goal pacing\<close>

text \<open>
  C5. For a savings goal with a positive remaining amount and a monthly contribution
  that is zero or negative, \<open>calculateMonthsRemaining\<close> returns the finite number 0, the
  value it also returns for a goal that is reached; it reports no failure and no
  infinity.
\<close>

theorem calculateMonthsRemaining_no_contribution:
  assumes "js_gt (js_sub target current) (Fin 0)" and "js_le contribution (Fin 0)"
  shows "calculateMonthsRemaining tDate current target contribution = Fin 0"
  using assms by (simp add: calculateMonthsRemaining_def Let_def)

theorem calculateMonthsRemaining_no_contribution_witness:
  "js_gt (js_sub (Fin 5000) (Fin 2100)) (Fin 0) \<and> js_le (Fin (-50)) (Fin 0)
   \<and> calculateMonthsRemaining (Fin 1723680000000) (Fin 2100) (Fin 5000) (Fin (-50)) = Fin 0"
proof -
  have h1: "js_gt (js_sub (Fin 5000) (Fin 2100)) (Fin 0)"
    by (simp add: js_gt_def js_sub_def)
  have h2: "js_le (Fin (-50)) (Fin 0)"
    by (simp add: js_le_def)
  from calculateMonthsRemaining_no_contribution [OF h1 h2] h1 h2 show ?thesis by simp
qed

text \<open>
  A goal of 10000 with 6500 saved and no monthly contribution: the months needed are a
  finite number, not an infinity.
\<close>

theorem calculateMonthsRemaining_counterexample:
  "js_gt (js_sub (Fin 10000) (Fin 6500)) (Fin 0) \<and> js_le (Fin 0) (Fin 0)
   \<and> isFinite (calculateMonthsRemaining (Fin 1735603200000) (Fin 6500) (Fin 10000) (Fin 0))
   \<and> calculateMonthsRemaining (Fin 1735603200000) (Fin 6500) (Fin 10000) (Fin 0) \<noteq> PInf"
  by (simp add: calculateMonthsRemaining_def js_gt_def js_le_def js_sub_def)

section \<open>Bill status\<close>

text \<open>
  C6. The status text of a bill is one of Paid, Overdue and Pending: Paid exactly when
  the paid flag is set, Overdue exactly when the bill is not paid and its stored overdue
  flag is set, Pending otherwise. The due dates of the bill have no part in it.
\<close>

theorem getBillStatusText_flags:
  "getBillStatusText bill \<in> {''Paid'', ''Overdue'', ''Pending''}
   \<and> (getBillStatusText bill = ''Paid'') = isPaid bill
   \<and> (getBillStatusText bill = ''Overdue'') = (\<not> isPaid bill \<and> isOverdue bill)
   \<and> (getBillStatusText bill = ''Pending'') = (\<not> isPaid bill \<and> \<not> isOverdue bill)
   \<and> getBillStatusText (bill\<lparr>dueDate := d, nextDueDate := d'\<rparr>) = getBillStatusText bill"
  by (simp add: getBillStatusText_def)

text \<open>
  The electric bill of the page is due on 15 January 2024, not paid, with the overdue
  flag not set. On 16 January its status text is Pending; the rule of the specification
  classifies it as overdue.
\<close>

theorem getBillStatusText_counterexample:
  "js_lt (dueDate electricBill) (Fin 1705363200000)
   \<and> getBillStatusText electricBill = ''Pending''
   \<and> status_text (classify_spec (dueDate electricBill) (isPaid electricBill)
        (Fin 1705363200000)) = ''Overdue''"
  by (simp add: getBillStatusText_def classify_spec_def electricBill_def)

section \<open>The clock\<close>

lemma js_le_Fin_mono: "js_le v (Fin a) \<Longrightarrow> a \<le> b \<Longrightarrow> js_le v (Fin b)"
  by (cases v) (auto simp: js_le_def)

lemma monthsUntilTarget_mono:
  assumes "t1 \<le> t2"
    and "js_le v (Math_ceil (js_div (js_sub tgt (Fin t2)) (Fin (1000 * 60 * 60 * 24 * 30))))"
  shows "js_le v (Math_ceil (js_div (js_sub tgt (Fin t1)) (Fin (1000 * 60 * 60 * 24 * 30))))"
proof (cases tgt)
  case (Fin x)
  have "(x - t2) / 2592000000 \<le> (x - t1) / 2592000000"
    using assms(1) by (simp add: divide_right_mono)
  then have "real_of_int \<lceil>(x - t2) / 2592000000\<rceil> \<le> real_of_int \<lceil>(x - t1) / 2592000000\<rceil>"
    by (simp add: ceiling_mono)
  with assms(2) Fin show ?thesis
    by (simp add: js_sub_def js_le_Fin_mono)
qed (use assms(2) in \<open>simp_all add: js_sub_def\<close>)

lemma getDaysUntilDue_Fin:
  "getDaysUntilDue (Fin c) (Fin d) = Fin (of_int \<lceil>(d - c) / 86400000\<rceil>)"
  by (simp add: getDaysUntilDue_def js_sub_def)

text \<open>
  C7. \<open>getDaysUntilDue\<close> and \<open>isOnTrack\<close> read the clock, and their results are
  functions of the arguments and of that reading: a clock that is \<open>k\<close> whole days later
  lowers the days until a due date by exactly \<open>k\<close>, and a goal that is on track at one
  reading of the clock is on track at every earlier reading.
\<close>

theorem clock_dependence:
  "getDaysUntilDue (Fin (t + 86400000 * of_int k)) (Fin d) =
     js_sub (getDaysUntilDue (Fin t) (Fin d)) (Fin (of_int k))
   \<and> (t1 \<le> t2 \<and> isOnTrack (Fin t2) goal \<longrightarrow> isOnTrack (Fin t1) goal)"
proof -
  have "(d - (t + 86400000 * of_int k)) / 86400000 = (d - t) / 86400000 - of_int k"
    by (simp add: field_simps)
  then have "\<lceil>(d - (t + 86400000 * of_int k)) / 86400000\<rceil> = \<lceil>(d - t) / 86400000\<rceil> - k"
    by (simp only: ceiling_diff_of_int)
  then have days: "getDaysUntilDue (Fin (t + 86400000 * of_int k)) (Fin d) =
      js_sub (getDaysUntilDue (Fin t) (Fin d)) (Fin (of_int k))"
    by (simp only: getDaysUntilDue_Fin) (simp add: js_sub_def)
  have "isOnTrack (Fin t1) goal" if "t1 \<le> t2" and "isOnTrack (Fin t2) goal"
    using that monthsUntilTarget_mono [of t1 t2 _ "targetDate goal"]
    by (simp add: isOnTrack_def Let_def)
  with days show ?thesis by blast
qed

theorem clock_dependence_witness:
  "(1705276800000::real) \<le> 1723680000000
   \<and> isOnTrack (Fin 1723680000000) (emergencyFund\<lparr>monthlyContribution := Fin 1000\<rparr>)
   \<and> isOnTrack (Fin 1705276800000) (emergencyFund\<lparr>monthlyContribution := Fin 1000\<rparr>)"
proof -
  have h: "isOnTrack (Fin 1723680000000) (emergencyFund\<lparr>monthlyContribution := Fin 1000\<rparr>)"
    by (simp add: isOnTrack_def calculateMonthsRemaining_def emergencyFund_def js_sub_def
        js_le_def)
  from clock_dependence [of 0 0 0 1705276800000 1723680000000
      "emergencyFund\<lparr>monthlyContribution := Fin 1000\<rparr>"] h
  show ?thesis by simp
qed

text \<open>
  The same due date, 16 January 2024, is one day away when the clock reads 15 January
  and no day away when it reads 16 January; the emergency fund of the page is on track
  when the clock reads 15 January 2024 and behind when it reads 15 August 2024.
\<close>

theorem clock_counterexample:
  "getDaysUntilDue (Fin 1705276800000) (Fin 1705363200000) = Fin 1
   \<and> getDaysUntilDue (Fin 1705363200000) (Fin 1705363200000) = Fin 0
   \<and> isOnTrack (Fin 1705276800000) emergencyFund
   \<and> \<not> isOnTrack (Fin 1723680000000) emergencyFund"
  by (simp add: getDaysUntilDue_def isOnTrack_def calculateMonthsRemaining_def
      emergencyFund_def js_sub_def js_le_def)

section \<open>Net worth\<close>

text \<open>
  C8. For every account list the net worth is the total assets minus the total
  liabilities, and for the empty list the three numbers are 0; so it is on the accounts
  page and on the page written out by the deployment script.
\<close>

theorem netWorth_difference:
  "netWorth accounts = js_sub (totalAssets accounts) (totalLiabilities accounts)
   \<and> totalAssets [] = Fin 0 \<and> totalLiabilities [] = Fin 0 \<and> netWorth [] = Fin 0
   \<and> netWorth_deploy accounts =
       js_sub (totalAssets_deploy accounts) (totalLiabilities_deploy accounts)
   \<and> totalAssets_deploy [] = Fin 0 \<and> totalLiabilities_deploy [] = Fin 0
   \<and> netWorth_deploy [] = Fin 0"
  by (simp add: netWorth_def totalAssets_def totalLiabilities_def netWorth_deploy_def
      totalAssets_deploy_def totalLiabilities_deploy_def js_sub_def)

section \<open>Transaction aggregates\<close>

text \<open>
  C9. The total income is the sum of the amounts of the income transactions, the total
  expenses are the sum of the absolute amounts of the expense transactions, and the net
  amount is their difference; a transfer, wherever it stands in the list, changes none
  of the three.
\<close>

theorem transfer_in_no_aggregate:
  assumes "tx_type t = Transfer"
  shows "totalIncome ts =
           js_sum (map (\<lambda>t. if tx_type t = Income then amount t else Fin 0) ts)
       \<and> totalExpenses ts =
           js_sum (map (\<lambda>t. if tx_type t = Expense then Math_abs (amount t) else Fin 0) ts)
       \<and> netAmount ts = js_sub (totalIncome ts) (totalExpenses ts)
       \<and> totalIncome (xs @ t # ys) = totalIncome (xs @ ys)
       \<and> totalExpenses (xs @ t # ys) = totalExpenses (xs @ ys)
       \<and> netAmount (xs @ t # ys) = netAmount (xs @ ys)"
proof -
  have inc: "totalIncome ts =
      js_sum (map (\<lambda>t. if tx_type t = Income then amount t else Fin 0) ts)"
    unfolding totalIncome_def by (simp only: reduce_js_sum js_sum_filter)
  have exp: "totalExpenses ts =
      js_sum (map (\<lambda>t. if tx_type t = Expense then Math_abs (amount t) else Fin 0) ts)"
    unfolding totalExpenses_def by (simp only: reduce_js_sum js_sum_filter)
  have i: "totalIncome (xs @ t # ys) = totalIncome (xs @ ys)"
    using assms by (simp add: totalIncome_def)
  have e: "totalExpenses (xs @ t # ys) = totalExpenses (xs @ ys)"
    using assms by (simp add: totalExpenses_def)
  from i e have "netAmount (xs @ t # ys) = netAmount (xs @ ys)"
    by (simp add: netAmount_def)
  with inc exp i e show ?thesis by (simp add: netAmount_def)
qed

theorem transfer_in_no_aggregate_witness:
  "tx_type onlineTransfer = Transfer
   \<and> totalIncome [salaryDeposit, onlineTransfer, groceryStore] = Fin 2250
   \<and> totalExpenses [salaryDeposit, onlineTransfer, groceryStore] = Fin 125.50
   \<and> netAmount [salaryDeposit, onlineTransfer, groceryStore] = Fin 2124.50"
proof -
  have h: "tx_type onlineTransfer = Transfer"
    by (simp add: onlineTransfer_def)
  have inc: "totalIncome [salaryDeposit, groceryStore] = Fin 2250"
    by (simp add: totalIncome_def salaryDeposit_def groceryStore_def)
  have exp: "totalExpenses [salaryDeposit, groceryStore] = Fin 125.50"
    by (simp add: totalExpenses_def salaryDeposit_def groceryStore_def)
  have net: "netAmount [salaryDeposit, groceryStore] = Fin 2124.50"
    by (simp add: netAmount_def inc exp js_sub_def)
  have "totalIncome ([salaryDeposit] @ onlineTransfer # [groceryStore]) =
          totalIncome ([salaryDeposit] @ [groceryStore])
      \<and> totalExpenses ([salaryDeposit] @ onlineTransfer # [groceryStore]) =
          totalExpenses ([salaryDeposit] @ [groceryStore])
      \<and> netAmount ([salaryDeposit] @ onlineTransfer # [groceryStore]) =
          netAmount ([salaryDeposit] @ [groceryStore])"
    using transfer_in_no_aggregate [OF h, of "[]" "[salaryDeposit]" "[groceryStore]"]
    by blast
  with h inc exp net show ?thesis by simp
qed

section \<open>Overall savings progress\<close>

text \<open>
  The savings page that the deployment script writes out has no test of the divisor: on
  the empty goal list it divides 0 by 0.
\<close>

lemma overallProgress_deploy_empty: "overallProgress_deploy [] = NaN"
  by (simp add: overallProgress_deploy_def)

text \<open>
  C10. For goals whose target amounts are not negative, the overall progress of the
  savings page is 0 if the summed target amount of the active goals is 0, and otherwise
  the summed current amount divided by the summed target amount, times 100. The summed
  target is 0 exactly when the test of the page fails, so the division is evaluated only
  with a divisor greater than 0.
\<close>

theorem overallProgress_guarded:
  assumes "\<forall>g\<in>set goals. isActive g \<longrightarrow> js_le (Fin 0) (targetAmount g)"
  shows "overallProgress goals =
           (if totalTargetAmount goals = Fin 0 then Fin 0
            else js_mul (js_div (totalCurrentAmount goals) (totalTargetAmount goals)) (Fin 100))
       \<and> (totalTargetAmount goals = Fin 0) = (\<not> js_gt (totalTargetAmount goals) (Fin 0))
       \<and> totalTargetAmount goals =
           js_sum (map (\<lambda>g. if isActive g then targetAmount g else Fin 0) goals)
       \<and> totalCurrentAmount goals =
           js_sum (map (\<lambda>g. if isActive g then currentAmount g else Fin 0) goals)"
proof -
  have T: "totalTargetAmount goals =
      js_sum (map (\<lambda>g. if isActive g then targetAmount g else Fin 0) goals)"
    unfolding totalTargetAmount_def activeGoals_def
    by (simp only: reduce_js_sum js_sum_filter)
  have C: "totalCurrentAmount goals =
      js_sum (map (\<lambda>g. if isActive g then currentAmount g else Fin 0) goals)"
    unfolding totalCurrentAmount_def activeGoals_def
    by (simp only: reduce_js_sum js_sum_filter)
  have "js_le (Fin 0) (totalTargetAmount goals)"
    unfolding T using assms by (intro js_sum_nonneg) (auto simp: js_le_def)
  then have guard:
    "(totalTargetAmount goals = Fin 0) = (\<not> js_gt (totalTargetAmount goals) (Fin 0))"
    by (rule nonneg_zero_or_gt)
  then have "overallProgress goals =
      (if totalTargetAmount goals = Fin 0 then Fin 0
       else js_mul (js_div (totalCurrentAmount goals) (totalTargetAmount goals)) (Fin 100))"
    by (simp add: overallProgress_def)
  with guard T C show ?thesis by blast
qed

text \<open>
  The emergency fund of the page alone gives a summed target of 10000 and a progress of
  65; the empty list gives a summed target of 0 and a progress of 0.
\<close>

theorem overallProgress_guarded_witness:
  "isActive emergencyFund \<and> js_le (Fin 0) (targetAmount emergencyFund)
   \<and> totalTargetAmount [emergencyFund] = Fin 10000
   \<and> overallProgress [emergencyFund] = Fin 65
   \<and> totalTargetAmount [] = Fin 0
   \<and> overallProgress [] = Fin 0"
proof -
  have h: "isActive emergencyFund \<and> js_le (Fin 0) (targetAmount emergencyFund)"
    by (simp add: emergencyFund_def js_le_def)
  then have hyp: "\<forall>g\<in>set [emergencyFund]. isActive g \<longrightarrow> js_le (Fin 0) (targetAmount g)"
    by simp
  have T: "totalTargetAmount [emergencyFund] = Fin 10000"
    by (simp add: totalTargetAmount_def activeGoals_def emergencyFund_def)
  have C: "totalCurrentAmount [emergencyFund] = Fin 6500"
    by (simp add: totalCurrentAmount_def activeGoals_def emergencyFund_def)
  have T0: "totalTargetAmount [] = Fin 0"
    by (simp add: totalTargetAmount_def activeGoals_def)
  from overallProgress_guarded [OF hyp]
  have "overallProgress [emergencyFund] =
      (if totalTargetAmount [emergencyFund] = Fin 0 then Fin 0
       else js_mul (js_div (totalCurrentAmount [emergencyFund])
              (totalTargetAmount [emergencyFund])) (Fin 100))"
    by blast
  then have one: "overallProgress [emergencyFund] = Fin 65"
    by (simp add: T C)
  from overallProgress_guarded [of "[]"]
  have "overallProgress [] =
      (if totalTargetAmount [] = Fin 0 then Fin 0
       else js_mul (js_div (totalCurrentAmount []) (totalTargetAmount [])) (Fin 100))"
    by simp
  then have two: "overallProgress [] = Fin 0"
    by (simp add: T0)
  from h T one T0 two show ?thesis by blast
qed

end
